theory Spec2Isabelle
  imports Main
begin

section \<open>The pending chat-request table of app.py\<close>

text \<open>
  The development embeds the staging endpoint \<^verbatim>\<open>chat\<close>, its eviction closure
  \<^verbatim>\<open>cleanup_request_data\<close>, the dispatch endpoint \<^verbatim>\<open>chat_stream\<close> and its generator
  \<^verbatim>\<open>generate_response\<close>, with the helpers \<^verbatim>\<open>handle_api_error\<close> and
  \<^verbatim>\<open>format_error_message\<close>. A Python string is the list of the bytes of its UTF-8
  encoding (\<open>char list\<close>), Python's unbounded integers are \<open>int\<close>, the module-level
  dictionary \<^verbatim>\<open>CHAT_REQUESTS\<close> is a map from keys to entries, and every mutation is
  explicit state passing. An exception is a value: an operation that can raise
  returns \<open>pyexn + 'a\<close>, with \<open>Inl\<close> for the exception.
\<close>

subsection \<open>JSON values, truthiness, exceptions\<close>

text \<open>
  The request body is JSON decoded by pydantic: \<^verbatim>\<open>history: List[Any]\<close> and
  \<^verbatim>\<open>api_state: Dict\<close> hold arbitrary JSON values. A dictionary is an association list
  read with \<open>map_of\<close>. JSON numbers are integers here; no float is read by the
  code below except to pass it on to the provider.
\<close>

datatype pyval =
    PNone
  | PBool bool
  | PInt int
  | PStr string
  | PList "pyval list"
  | PDict "(string \<times> pyval) list"

type_synonym pydict = "(string \<times> pyval) list"

text \<open>Python's truth value of an object, as \<^verbatim>\<open>if x:\<close> and \<^verbatim>\<open>not x\<close> test it.\<close>

fun truthy :: "pyval \<Rightarrow> bool" where
  "truthy PNone = False"
| "truthy (PBool b) = b"
| "truthy (PInt i) = (i \<noteq> 0)"
| "truthy (PStr s) = (s \<noteq> [])"
| "truthy (PList xs) = (xs \<noteq> [])"
| "truthy (PDict d) = (d \<noteq> [])"

text \<open>\<^verbatim>\<open>d.get(k, default)\<close>\<close>

definition py_get :: "pydict \<Rightarrow> string \<Rightarrow> pyval \<Rightarrow> pyval" where
  "py_get d k dflt = (case map_of d k of Some v \<Rightarrow> v | None \<Rightarrow> dflt)"

text \<open>
  The exception classes that \<^verbatim>\<open>handle_api_error\<close> tells apart, each with the text
  that \<^verbatim>\<open>str(e)\<close> gives; \<open>APIStatusError\<close> also carries its \<^verbatim>\<open>status_code\<close>, and its
  \<^verbatim>\<open>message\<close> attribute is its text. Every other exception (KeyError, TypeError,
  EnvironmentError, ...) is \<open>OtherException\<close>.
\<close>

datatype pyexn =
    RateLimitError string
  | APIConnectionError string
  | APIStatusError int string
  | OtherException string

fun exn_str :: "pyexn \<Rightarrow> string" where
  "exn_str (RateLimitError t) = t"
| "exn_str (APIConnectionError t) = t"
| "exn_str (APIStatusError c t) = t"
| "exn_str (OtherException t) = t"

subsection \<open>Strings\<close>

text \<open>\<^verbatim>\<open>str(n)\<close> for an integer: its decimal digits, with a sign when negative.\<close>

definition digit_char :: "nat \<Rightarrow> char" where
  "digit_char d = ''0123456789'' ! d"

function str_nat :: "nat \<Rightarrow> string" where
  "str_nat n = (if n < 10 then [digit_char n] else str_nat (n div 10) @ [digit_char (n mod 10)])"
  by pat_completeness auto
termination
  by (relation "measure (\<lambda>n. n)") auto

declare str_nat.simps [simp del]

definition str_int :: "int \<Rightarrow> string" where
  "str_int i = (if i < 0 then CHR ''-'' # str_nat (nat (- i)) else str_nat (nat i))"

text \<open>
  \<^verbatim>\<open>s.strip()\<close> removes the leading and the trailing whitespace characters. Python's
  whitespace characters are U+0009 to U+000D, U+001C to U+0020, U+0085, U+00A0,
  U+1680, U+2000 to U+200A, U+2028, U+2029, U+202F, U+205F and U+3000. In UTF-8 the
  first ten are one byte each, U+0085 and U+00A0 are the two bytes C2 85 and C2 A0,
  and the others are three bytes: E1 9A 80, E2 80 80 to E2 80 8A, E2 80 A8, E2 80 A9,
  E2 80 AF, E2 81 9F and E3 80 80.
\<close>

definition is_space1 :: "char \<Rightarrow> bool" where
  "is_space1 a = (let n = (of_char a :: nat) in (9 \<le> n \<and> n \<le> 13) \<or> (28 \<le> n \<and> n \<le> 32))"

definition is_space2 :: "char \<Rightarrow> char \<Rightarrow> bool" where
  "is_space2 a b = (a = CHR 0xC2 \<and> (b = CHR 0x85 \<or> b = CHR 0xA0))"

definition is_space3 :: "char \<Rightarrow> char \<Rightarrow> char \<Rightarrow> bool" where
  "is_space3 a b c =
     ((a = CHR 0xE1 \<and> b = CHR 0x9A \<and> c = CHR 0x80)
      \<or> (a = CHR 0xE2 \<and> b = CHR 0x80
           \<and> (let n = (of_char c :: nat)
               in (128 \<le> n \<and> n \<le> 138) \<or> n = 168 \<or> n = 169 \<or> n = 175))
      \<or> (a = CHR 0xE2 \<and> b = CHR 0x81 \<and> c = CHR 0x9F)
      \<or> (a = CHR 0xE3 \<and> b = CHR 0x80 \<and> c = CHR 0x80))"

text \<open>
  \<^verbatim>\<open>s.lstrip()\<close>: while the string starts with the encoding of a whitespace character,
  that character is dropped.
\<close>

fun lstrip :: "string \<Rightarrow> string" where
  "lstrip (a # b # c # s) =
     (if is_space1 a then lstrip (b # c # s)
      else if is_space2 a b then lstrip (c # s)
      else if is_space3 a b c then lstrip s
      else a # b # c # s)"
| "lstrip [a, b] =
     (if is_space1 a then lstrip [b]
      else if is_space2 a b then []
      else [a, b])"
| "lstrip [a] = (if is_space1 a then [] else [a])"
| "lstrip [] = []"

text \<open>
  \<^verbatim>\<open>s.rstrip()\<close>, on the reversed string: \<open>a\<close> is the last byte, \<open>b\<close> the one before it.
  No encoding of a character ends with the encoding of another one, so a string that
  ends with the bytes of a whitespace character ends with that character.
\<close>

fun rstrip_rev :: "string \<Rightarrow> string" where
  "rstrip_rev (a # b # c # s) =
     (if is_space1 a then rstrip_rev (b # c # s)
      else if is_space2 b a then rstrip_rev (c # s)
      else if is_space3 c b a then rstrip_rev s
      else a # b # c # s)"
| "rstrip_rev [a, b] =
     (if is_space1 a then rstrip_rev [b]
      else if is_space2 b a then []
      else [a, b])"
| "rstrip_rev [a] = (if is_space1 a then [] else [a])"
| "rstrip_rev [] = []"

definition rstrip :: "string \<Rightarrow> string" where
  "rstrip s = rev (rstrip_rev (rev s))"

definition strip :: "string \<Rightarrow> string" where
  "strip s = rstrip (lstrip s)"



text \<open>
  The non-ASCII prefixes of the message literals, as the byte sequences that stand
  in the source file.
\<close>

definition warn_sign :: string where
  "warn_sign = [CHR 0xE2, CHR 0x80, CHR 0x9A, CHR 0xC3, CHR 0xB6, CHR 0xE2, CHR 0x80, CHR 0xA0,
                CHR 0xC3, CHR 0x94, CHR 0xE2, CHR 0x88, CHR 0x8F, CHR 0xC3, CHR 0xA8]"

definition cross_sign :: string where
  "cross_sign = [CHR 0xE2, CHR 0x80, CHR 0x9A, CHR 0xC3, CHR 0xB9, CHR 0xC3, CHR 0xA5]"

definition thought_sign :: string where
  "thought_sign = [CHR 0xEF, CHR 0xA3, CHR 0xBF, CHR 0xC3, CHR 0xBC, CHR 0xC3, CHR 0xAD,
                   CHR 0xE2, CHR 0x89, CHR 0xA0]"

subsection \<open>Requests, entries, the table\<close>

text \<open>The pydantic models \<^verbatim>\<open>ChatMessage\<close> and \<^verbatim>\<open>ChatRequest\<close>.\<close>

record ChatMessage =
  mtext :: string
  mtype :: "string option"
  image_data :: "pydict option"
  state :: "pydict option"

record ChatRequest =
  req_history :: "pyval list"
  req_api_state :: pydict
  req_grade :: string
  req_topic :: string
  req_message :: ChatMessage
  request_id :: "string option"

text \<open>The dictionary \<^verbatim>\<open>chat_data\<close> stored for a request.\<close>

record chat_data =
  history :: "pyval list"
  api_state :: pydict
  grade :: string
  topic :: string
  message :: ChatMessage
  timestamp :: string

type_synonym table = "string \<rightharpoonup> chat_data"

text \<open>
  A \<^verbatim>\<open>threading.Timer(delay, cleanup_request_data)\<close> that has been started: its delay
  in seconds and the \<^verbatim>\<open>request_id\<close> its closure holds.
\<close>

record timer =
  delay :: nat
  timer_request_id :: string

text \<open>The process state: the global table and the timers started so far.\<close>

record server =
  CHAT_REQUESTS :: table
  timers :: "timer list"

definition MAX_HISTORY :: nat where
  "MAX_HISTORY = 20"

text \<open>The key \<^verbatim>\<open>f'CHAT_REQ_{request_id}'\<close>.\<close>

definition req_key :: "string \<Rightarrow> string" where
  "req_key rid = ''CHAT_REQ_'' @ rid"

text \<open>A string between two single quotes, as the messages of Python name a type.\<close>

definition quoted :: "string \<Rightarrow> string" where
  "quoted s = CHR 0x27 # s @ [CHR 0x27]"

text \<open>
  Dictionary operations that raise: \<^verbatim>\<open>d[k]\<close> and \<^verbatim>\<open>del d[k]\<close> raise \<^verbatim>\<open>KeyError(k)\<close>
  on a missing key. The exception holds the key; its text is made where it is caught.
\<close>

datatype key_error = KeyError string

definition getitem :: "table \<Rightarrow> string \<Rightarrow> key_error + chat_data" where
  "getitem tbl k = (case tbl k of None \<Rightarrow> Inl (KeyError k) | Some d \<Rightarrow> Inr d)"

definition delitem :: "table \<Rightarrow> string \<Rightarrow> key_error + table" where
  "delitem tbl k = (case tbl k of None \<Rightarrow> Inl (KeyError k) | Some d \<Rightarrow> Inr (tbl(k := None)))"

subsection \<open>The Stager: chat\<close>

datatype response =
    ErrorResponse string
  | SuccessResponse string string

definition restart_message :: string where
  "restart_message = warn_sign @ '' Please restart the system''"

definition limit_message :: string where
  "limit_message = warn_sign @ '' Maximum conversation limit reached. Please start a new conversation''"

definition invalid_request_message :: string where
  "invalid_request_message = warn_sign @ '' Invalid or expired request. Please try again''"

text \<open>
  \<^verbatim>\<open>chat(request_data)\<close>. What the body reads from outside the request are
  arguments: \<open>now\<close> is \<^verbatim>\<open>int(time.time())\<close>, \<open>stamp\<close> is \<^verbatim>\<open>datetime.now().isoformat()\<close>,
  and \<open>start_failure\<close> is the exception that \<^verbatim>\<open>cleanup_timer.start()\<close> raises, if it
  raises one (RuntimeError, when no thread can be started). The result is the returned
  dictionary and the state after the call. The two blocks on graph and 3D calculator
  messages only log. No other statement of the body raises on a validated
  \<^verbatim>\<open>ChatRequest\<close>; the handler of the enclosing \<^verbatim>\<open>try\<close> answers a failed start, when
  the entry is in the table already.
\<close>

definition server_error_message :: "pyexn \<Rightarrow> string" where
  "server_error_message e = cross_sign @ '' Server error: '' @ exn_str e"

definition chat :: "int \<Rightarrow> string \<Rightarrow> pyexn option \<Rightarrow> ChatRequest \<Rightarrow> server \<Rightarrow> response \<times> server" where
  "chat now stamp start_failure request_data s =
     (let hist = req_history request_data;
          st = req_api_state request_data;
          rid = (case request_id request_data of
                   None \<Rightarrow> str_int now
                 | Some r \<Rightarrow> if r = [] then str_int now else r)
      in if st = [] \<or> \<not> truthy (py_get st ''is_valid'' (PBool False))
         then (ErrorResponse restart_message, s)
         else if length hist \<ge> MAX_HISTORY * 2
         then (ErrorResponse limit_message, s)
         else
           let data = \<lparr> history = hist, api_state = st, grade = req_grade request_data,
                        topic = req_topic request_data, message = req_message request_data,
                        timestamp = stamp \<rparr>;
               stored = s\<lparr> CHAT_REQUESTS := (CHAT_REQUESTS s)(req_key rid \<mapsto> data) \<rparr>
           in case start_failure of
                Some e \<Rightarrow> (ErrorResponse (server_error_message e), stored)
              | None \<Rightarrow>
                  (SuccessResponse ''Data received successfully'' rid,
                   stored\<lparr> timers := timers s @ [\<lparr> delay = 300, timer_request_id = rid \<rparr>] \<rparr>))"

subsection \<open>The Eviction Timer: cleanup_request_data\<close>


subsection \<open>The Dispatcher: chat_stream\<close>

text \<open>
  What the generator's closure captures from \<^verbatim>\<open>chat_stream\<close>: \<^verbatim>\<open>request_id\<close>, the list
  \<^verbatim>\<open>history\<close> and the dictionary \<^verbatim>\<open>api_state\<close>.
\<close>

record stream_closure =
  cl_request_id :: string
  cl_history :: "pyval list"
  cl_api_state :: pydict

text \<open>
  The two results of \<^verbatim>\<open>chat_stream\<close>: a \<^verbatim>\<open>JSONResponse\<close> with status "error" and a
  message, or a \<^verbatim>\<open>StreamingResponse\<close> over the generator, which has not run yet.
\<close>

datatype stream_response =
    JSONResponse string
  | StreamingResponse stream_closure

text \<open>\<^verbatim>\<open>isinstance(x, dict) and x.get('type') == 'image'\<close>\<close>

fun is_image_turn :: "pyval \<Rightarrow> bool" where
  "is_image_turn (PDict d) = (map_of d ''type'' = Some (PStr ''image''))"
| "is_image_turn v = False"

text \<open>
  \<^verbatim>\<open>message\<close> is the dictionary made by \<^verbatim>\<open>request_data.message.dict()\<close>, so the branch
  taken is \<^verbatim>\<open>message.get('text', "").strip()\<close> and \<^verbatim>\<open>message.get('image_data', None)\<close>.
\<close>

definition user_text :: "ChatMessage \<Rightarrow> string" where
  "user_text m = strip (mtext m)"

definition user_message :: "ChatMessage \<Rightarrow> pyval" where
  "user_message m =
     (case image_data m of
        None \<Rightarrow> PStr (user_text m)
      | Some img \<Rightarrow>
          if img = [] then PStr (user_text m)
          else PDict [(''type'', PStr ''image''),
                      (''text'', PStr (user_text m)),
                      (''preview'', py_get img ''preview'' (PStr [])),
                      (''file_name'', py_get img ''file_name'' (PStr []))])"

text \<open>The block "Add user message to history if not already added".\<close>

definition add_user_message :: "pyval list \<Rightarrow> ChatMessage \<Rightarrow> pyval list" where
  "add_user_message hist m =
     (if hist \<noteq> [] \<and> is_image_turn (last hist) then hist
      else if hist \<noteq> [] \<and> last hist = PStr (user_text m) then hist
      else hist @ [user_message m])"

text \<open>
  \<^verbatim>\<open>chat_stream(request_id)\<close> up to its \<^verbatim>\<open>return\<close>. The entry is read with
  \<^verbatim>\<open>CHAT_REQUESTS[key]\<close> and stays in the table; \<^verbatim>\<open>history.append\<close> works on the list
  the entry holds, so the entry's history is the appended one afterwards.
\<close>

definition chat_stream :: "string \<Rightarrow> table \<Rightarrow> stream_response \<times> table" where
  "chat_stream rid tbl =
     (if rid = [] then (JSONResponse invalid_request_message, tbl)
      else case tbl (req_key rid) of
          None \<Rightarrow> (JSONResponse invalid_request_message, tbl)
        | Some data \<Rightarrow>
            let hist = add_user_message (history data) (message data)
            in (StreamingResponse
                  \<lparr> cl_request_id = rid, cl_history = hist, cl_api_state = api_state data \<rparr>,
                tbl(req_key rid \<mapsto> data\<lparr> history := hist \<rparr>)))"

subsection \<open>Error messages\<close>

fun handle_api_error :: "pyexn \<Rightarrow> string" where
  "handle_api_error (RateLimitError t) =
     warn_sign @ '' API rate limit exceeded. Please wait and try again''"
| "handle_api_error (APIConnectionError t) =
     warn_sign @ '' Connection error. Please check your internet connection''"
| "handle_api_error (APIStatusError code msg) =
     warn_sign @ '' API error: '' @ str_int code @ '' - '' @ msg"
| "handle_api_error (OtherException t) =
     warn_sign @ '' API error: '' @ t"

text \<open>\<open>clk\<close> is \<^verbatim>\<open>datetime.now().strftime("%H:%M:%S")\<close>.\<close>

definition format_error_message :: "string \<Rightarrow> string \<Rightarrow> string" where
  "format_error_message clk msg = ''['' @ clk @ ''] '' @ msg"

subsection \<open>The generator: generate_response\<close>

text \<open>
  An event is the JSON object that one \<^verbatim>\<open>yield f"data: {json.dumps(...)}\n\n"\<close> sends,
  by its \<^verbatim>\<open>type\<close>; \<open>Done\<close> carries \<^verbatim>\<open>content\<close>, \<^verbatim>\<open>updated_memory\<close> and \<^verbatim>\<open>scientist_key\<close>.
\<close>

datatype event =
    Thinking string
  | Chunk string
  | Done string pyval pyval
  | Error string

record ScientistProfile =
  icon :: string
  display_name :: string
  teaching_style :: string

text \<open>
  One element of the provider's stream is a chunk; \<^verbatim>\<open>chunk.choices\<close> is a list, and
  each choice has a \<^verbatim>\<open>delta.content\<close> that is a string or \<^verbatim>\<open>None\<close>. The stream
  delivers its chunks and then ends, or raises instead of ending.
\<close>

type_synonym chunk = "string option list"

record upstream =
  chunks :: "chunk list"
  failure :: "pyexn option"

text \<open>
  What a run of the generator takes from outside the closure:
  \<^item> the table \<^verbatim>\<open>MATHEMATICS_SCIENTISTS\<close>, by the three attributes read here;
  \<^item> \<open>setup_failure\<close>: the exception, if any, raised between the first thinking event
    and the reading of the current message, where the memory summary is formatted,
    the system prompt is concatenated and \<^verbatim>\<open>init_openai_client\<close> reads the API key
    (it raises EnvironmentError without one); the loop over the earlier turns
    catches its own exceptions;
  \<^item> \<open>api_call\<close>: what \<^verbatim>\<open>client.chat.completions.create(..., stream=True)\<close> does, a
    raise or a stream;
  \<^item> \<open>memory_update\<close>: the outcome of the keyword scan that updates
    \<^verbatim>\<open>conversation_memory\<close>, a raise (a memory summary of the wrong shape) or the
    updated summary;
  \<^item> \<open>clock\<close>: the time of day that \<^verbatim>\<open>format_error_message\<close> reads;
  \<^item> \<open>key_error_text\<close>: the text \<^verbatim>\<open>str(e)\<close> of a KeyError \<^verbatim>\<open>e\<close> raised for the key of
    the run. It is \<^verbatim>\<open>repr\<close> of the key, which Python makes with its own choice of
    quotes and escapes; the only key a run looks up is its own.
\<close>

record run_env =
  MATHEMATICS_SCIENTISTS :: "string \<rightharpoonup> ScientistProfile"
  setup_failure :: "pyexn option"
  api_call :: "pyexn + upstream"
  memory_update :: "pyexn + pyval"
  clock :: string
  key_error_text :: string

text \<open>A KeyError of the run, as the exception that a handler catches.\<close>

definition caught_key_error :: "run_env \<Rightarrow> key_error \<Rightarrow> pyexn" where
  "caught_key_error env e = OtherException (key_error_text env)"

text \<open>
  \<^verbatim>\<open>scientist_key and scientist_key != 'none' and scientist_key in MATHEMATICS_SCIENTISTS\<close>,
  then the profile when it holds. A non-empty list or dictionary is not hashable, and
  the membership test raises TypeError; the keys of the table are strings, so no
  boolean or number is among them.
\<close>

fun scientist_of :: "(string \<rightharpoonup> ScientistProfile) \<Rightarrow> pyval \<Rightarrow> pyexn + ScientistProfile option" where
  "scientist_of tab (PStr k) = Inr (if k \<noteq> [] \<and> k \<noteq> ''none'' then tab k else None)"
| "scientist_of tab (PList xs) =
     (if xs = [] then Inr None else Inl (OtherException (''unhashable type: '' @ quoted ''list'')))"
| "scientist_of tab (PDict d) =
     (if d = [] then Inr None else Inl (OtherException (''unhashable type: '' @ quoted ''dict'')))"
| "scientist_of tab v = Inr None"

definition first_thinking :: "ScientistProfile option \<Rightarrow> string" where
  "first_thinking sci =
     (case sci of
        Some p \<Rightarrow> icon p @ '' '' @ display_name p @ '' is contemplating this mathematics problem...''
      | None \<Rightarrow> thought_sign @ '' Analyzing and preparing response...'')"

definition second_thinking :: "ScientistProfile option \<Rightarrow> string" where
  "second_thinking sci =
     (case sci of
        Some p \<Rightarrow> icon p @ '' '' @ display_name p @ '' is formulating a response using ''
                    @ teaching_style p @ ''...''
      | None \<Rightarrow> thought_sign @ '' Processing your question...'')"

text \<open>\<^verbatim>\<open>history[-1]\<close>, which raises IndexError on an empty list.\<close>

definition last_item :: "pyval list \<Rightarrow> pyexn + pyval" where
  "last_item xs = (if xs = [] then Inl (OtherException ''list index out of range'') else Inr (last xs))"

text \<open>
  The \<^verbatim>\<open>try\<close> around the current image turn: \<^verbatim>\<open>preview_base64.startswith\<close> raises
  AttributeError when the preview is true and not a string; nothing else in it
  raises.
\<close>

fun type_name :: "pyval \<Rightarrow> string" where
  "type_name PNone = ''NoneType''"
| "type_name (PBool b) = ''bool''"
| "type_name (PInt i) = ''int''"
| "type_name (PStr s) = ''str''"
| "type_name (PList xs) = ''list''"
| "type_name (PDict d) = ''dict''"

fun is_str :: "pyval \<Rightarrow> bool" where
  "is_str (PStr s) = True"
| "is_str v = False"

fun image_failure :: "pyval \<Rightarrow> pyexn option" where
  "image_failure (PDict d) =
     (let preview = py_get d ''preview'' (PStr [])
      in if truthy preview \<and> \<not> is_str preview
         then Some (OtherException (quoted (type_name preview) @ '' object has no attribute ''
                                  @ quoted ''startswith''))
         else None)"
| "image_failure v = None"

text \<open>
  The loop \<^verbatim>\<open>for chunk in stream\<close>: the events it yields and how it ends, with the
  exception raised or with \<^verbatim>\<open>full_response\<close>. \<^verbatim>\<open>chunk.choices[0]\<close> raises IndexError on
  a chunk with no choice.
\<close>

fun relay :: "chunk list \<Rightarrow> pyexn option \<Rightarrow> string \<Rightarrow> event list \<times> (pyexn + string)" where
  "relay [] None full_response = ([], Inr full_response)"
| "relay [] (Some e) full_response = ([], Inl e)"
| "relay ([] # cs) fl full_response = ([], Inl (OtherException ''list index out of range''))"
| "relay ((None # others) # cs) fl full_response = relay cs fl full_response"
| "relay ((Some content # others) # cs) fl full_response =
     (case relay cs fl (full_response @ content) of
        (evs, r) \<Rightarrow> (Chunk content # evs, r))"

text \<open>\<^verbatim>\<open>d[k] = v\<close> on a dictionary that is an association list.\<close>

fun dict_set :: "pydict \<Rightarrow> string \<Rightarrow> pyval \<Rightarrow> pydict" where
  "dict_set [] k v = [(k, v)]"
| "dict_set ((k', v') # d) k v = (if k' = k then (k, v) # d else (k', v') # dict_set d k v)"

text \<open>
  \<^verbatim>\<open>CHAT_REQUESTS[key]['history'] = history\<close> and \<^verbatim>\<open>CHAT_REQUESTS[key]['api_state'] = api_state\<close>:
  the subscript raises KeyError when the key is gone.
\<close>

definition set_history :: "table \<Rightarrow> string \<Rightarrow> pyval list \<Rightarrow> key_error + table" where
  "set_history tbl k h =
     (case getitem tbl k of Inl e \<Rightarrow> Inl e | Inr d \<Rightarrow> Inr (tbl(k \<mapsto> d\<lparr> history := h \<rparr>)))"

definition set_api_state :: "table \<Rightarrow> string \<Rightarrow> pydict \<Rightarrow> key_error + table" where
  "set_api_state tbl k st =
     (case getitem tbl k of Inl e \<Rightarrow> Inl e | Inr d \<Rightarrow> Inr (tbl(k \<mapsto> d\<lparr> api_state := st \<rparr>)))"

text \<open>
  The inner \<^verbatim>\<open>try\<close> block. The result is the events yielded, the closure's history as
  it stands, the table, and the exception that left the block, if one did.
\<close>

definition inner_try :: "run_env \<Rightarrow> stream_closure \<Rightarrow> pyval \<Rightarrow> table \<Rightarrow>
    event list \<times> pyval list \<times> table \<times> pyexn option" where
  "inner_try env c scientist_key tbl =
     (let key = req_key (cl_request_id c) in
      case api_call env of
        Inl e \<Rightarrow> ([], cl_history c, tbl, Some e)
      | Inr stream \<Rightarrow>
          (case relay (chunks stream) (failure stream) [] of
             (evs, Inl e) \<Rightarrow> (evs, cl_history c, tbl, Some e)
           | (evs, Inr full_response) \<Rightarrow>
               let h = cl_history c @ [PStr full_response] in
               (case memory_update env of
                  Inl e \<Rightarrow> (evs, h, tbl, Some e)
                | Inr conversation_memory \<Rightarrow>
                    (case set_history tbl key h of
                       Inl e \<Rightarrow> (evs, h, tbl, Some (caught_key_error env e))
                     | Inr tbl1 \<Rightarrow>
                         (case set_api_state tbl1 key
                                 (dict_set (cl_api_state c) ''conversation_memory'' conversation_memory) of
                            Inl e \<Rightarrow> (evs, h, tbl1, Some (caught_key_error env e))
                          | Inr tbl2 \<Rightarrow>
                              (evs @ [Done full_response conversation_memory scientist_key],
                               h, tbl2, None))))))"

text \<open>The handler \<^verbatim>\<open>except Exception as api_error\<close> of the inner block.\<close>

definition inner_handler :: "run_env \<Rightarrow> string \<Rightarrow> pyexn \<Rightarrow> pyval list \<Rightarrow> table \<Rightarrow>
    event list \<times> table \<times> pyexn option" where
  "inner_handler env key api_error h tbl =
     (let error_msg = handle_api_error api_error in
      case set_history tbl key (h @ [PStr error_msg]) of
        Inl e \<Rightarrow> ([], tbl, Some (caught_key_error env e))
      | Inr tbl1 \<Rightarrow> ([Error error_msg], tbl1, None))"

text \<open>
  The outer \<^verbatim>\<open>try\<close> block, from its first statement to the end of the inner
  \<^verbatim>\<open>try\<close>/\<^verbatim>\<open>except\<close>: the events yielded, the table, and the exception that left
  the block, if one did. The \<^verbatim>\<open>return\<close> after an image error leaves it with none.
\<close>

definition outer_try :: "run_env \<Rightarrow> stream_closure \<Rightarrow> table \<Rightarrow>
    event list \<times> table \<times> pyexn option" where
  "outer_try env c tbl =
     (let key = req_key (cl_request_id c);
          scientist_key = py_get (cl_api_state c) ''scientist_key'' (PStr ''none'')
      in case scientist_of (MATHEMATICS_SCIENTISTS env) scientist_key of
        Inl e \<Rightarrow> ([], tbl, Some e)
      | Inr scientist \<Rightarrow>
          let ev1 = [Thinking (first_thinking scientist)] in
          (case setup_failure env of
             Some e \<Rightarrow> (ev1, tbl, Some e)
           | None \<Rightarrow>
               (case last_item (cl_history c) of
                  Inl e \<Rightarrow> (ev1, tbl, Some e)
                | Inr current_msg \<Rightarrow>
                    (case (if is_image_turn current_msg then image_failure current_msg else None) of
                       Some img_error \<Rightarrow>
                         (ev1 @ [Error (warn_sign @ '' Error processing image: '' @ exn_str img_error)],
                          tbl, None)
                     | None \<Rightarrow>
                         let ev2 = ev1 @ [Thinking (second_thinking scientist)] in
                         (case inner_try env c scientist_key tbl of
                            (evs, h, tbl1, None) \<Rightarrow> (ev2 @ evs, tbl1, None)
                          | (evs, h, tbl1, Some api_error) \<Rightarrow>
                              (case inner_handler env key api_error h tbl1 of
                                 (evs', tbl2, r) \<Rightarrow> (ev2 @ evs @ evs', tbl2, r)))))))"

text \<open>
  The handler \<^verbatim>\<open>except Exception as e\<close> of the outer block; the append goes to the
  history that the entry holds.
\<close>

definition outer_handler :: "string \<Rightarrow> string \<Rightarrow> pyexn \<Rightarrow> table \<Rightarrow> event list \<times> table" where
  "outer_handler clk key e tbl =
     (let error_msg = format_error_message clk (warn_sign @ '' Unexpected error: '' @ exn_str e)
      in ([Error error_msg],
          case tbl key of
            None \<Rightarrow> tbl
          | Some d \<Rightarrow> tbl(key \<mapsto> d\<lparr> history := history d @ [PStr error_msg] \<rparr>)))"

text \<open>The \<^verbatim>\<open>finally\<close> block: "Delete data after use".\<close>

definition finally_block :: "string \<Rightarrow> table \<Rightarrow> key_error + table" where
  "finally_block key tbl = (if key \<in> dom tbl then delitem tbl key else Inr tbl)"

text \<open>
  A run of the generator to its end: the events in the order yielded, the table it
  leaves, and the exception that escapes the generator, if one does. The generator
  reads and writes the table only after the last element of the provider's stream, so
  \<open>tbl\<close> is the table as it stands then; the closure's own list stands for the
  entry's list, and every path ends in the \<^verbatim>\<open>finally\<close> block.
\<close>

definition generate_response :: "run_env \<Rightarrow> stream_closure \<Rightarrow> table \<Rightarrow>
    event list \<times> table \<times> pyexn option" where
  "generate_response env c tbl =
     (let key = req_key (cl_request_id c) in
      case outer_try env c tbl of
        (evs, tbl1, r) \<Rightarrow>
          (case (case r of
                   None \<Rightarrow> (evs, tbl1)
                 | Some e \<Rightarrow> (case outer_handler (clock env) key e tbl1 of
                                (ev, tbl2) \<Rightarrow> (evs @ ev, tbl2))) of
             (evs', tbl3) \<Rightarrow>
               (case finally_block key tbl3 of
                  Inl e \<Rightarrow> (evs', tbl3, Some (caught_key_error env e))
                | Inr tbl4 \<Rightarrow> (evs', tbl4, None))))"

subsection \<open>Where the exceptions of a run come from\<close>


text \<open>
  \<open>e\<close> is the exception raised in the inner block before it writes to the table: by
  the provider's call, or else by the loop over its stream (the stream's own failure
  or the IndexError on a chunk without a choice), or else by the memory update.
\<close>

definition inner_source :: "run_env \<Rightarrow> pyexn \<Rightarrow> bool" where
  "inner_source env e =
     (case api_call env of
        Inl e' \<Rightarrow> e = e'
      | Inr stream \<Rightarrow>
          (case snd (relay (chunks stream) (failure stream) []) of
             Inl e' \<Rightarrow> e = e'
           | Inr full_response \<Rightarrow> memory_update env = Inl e))"

subsection \<open>Reading an event stream\<close>

text \<open>The terminal events are \<open>Done\<close> and \<open>Error\<close>.\<close>

fun is_terminal :: "event \<Rightarrow> bool" where
  "is_terminal (Done content mem sk) = True"
| "is_terminal (Error msg) = True"
| "is_terminal e = False"

text \<open>The contents of the chunk events of a stream, in the order emitted.\<close>

fun chunk_contents :: "event list \<Rightarrow> string list" where
  "chunk_contents [] = []"
| "chunk_contents (Chunk content # evs) = content # chunk_contents evs"
| "chunk_contents (e # evs) = chunk_contents evs"

text \<open>
  The text fragments that arrive from the provider, in the order of arrival: the
  \<^verbatim>\<open>delta.content\<close> of the first choice of each chunk, where it is not \<^verbatim>\<open>None\<close>.
\<close>

fun fragments :: "chunk list \<Rightarrow> string list" where
  "fragments [] = []"
| "fragments ((Some content # others) # cs) = content # fragments cs"
| "fragments (c # cs) = fragments cs"

text \<open>A stream that ends with its only terminal event.\<close>

definition ends_once :: "event list \<Rightarrow> bool" where
  "ends_once evs \<longleftrightarrow>
     (\<exists>pre t. evs = pre @ [t] \<and> is_terminal t \<and> (\<forall>e \<in> set pre. \<not> is_terminal e))"

subsection \<open>Sample requests and runs\<close>

definition message_A :: ChatMessage where
  "message_A = \<lparr> mtext = '' hi '', mtype = Some ''text'', image_data = None, state = None \<rparr>"

definition message_B :: ChatMessage where
  "message_B = \<lparr> mtext = ''what is 2+2?'', mtype = Some ''text'', image_data = None,
                  state = None \<rparr>"

definition valid_state :: pydict where
  "valid_state = [(''is_valid'', PBool True), (''scientist_key'', PStr ''none'')]"

definition request_A :: ChatRequest where
  "request_A = \<lparr> req_history = [], req_api_state = valid_state, req_grade = ''7'',
       req_topic = ''algebra'', req_message = message_A, request_id = None \<rparr>"

definition request_B :: ChatRequest where
  "request_B = \<lparr> req_history = [], req_api_state = valid_state, req_grade = ''7'',
       req_topic = ''algebra'', req_message = message_B, request_id = None \<rparr>"

text \<open>Forty earlier turns, with a usable configuration and with an empty one.\<close>

definition request_long :: ChatRequest where
  "request_long = \<lparr> req_history = replicate 40 (PStr ''turn''), req_api_state = valid_state,
       req_grade = ''7'', req_topic = ''algebra'', req_message = message_B, request_id = None \<rparr>"

definition request_long_unusable :: ChatRequest where
  "request_long_unusable = \<lparr> req_history = replicate 40 (PStr ''turn''), req_api_state = [],
       req_grade = ''7'', req_topic = ''algebra'', req_message = message_B, request_id = None \<rparr>"

definition request_unusable :: ChatRequest where
  "request_unusable = \<lparr> req_history = [], req_api_state = [(''is_valid'', PBool False)],
       req_grade = ''7'', req_topic = ''algebra'', req_message = message_B, request_id = None \<rparr>"

definition empty_server :: server where
  "empty_server = \<lparr> CHAT_REQUESTS = Map.empty, timers = [] \<rparr>"

definition data_A :: chat_data where
  "data_A = \<lparr> history = [], api_state = valid_state, grade = ''7'', topic = ''algebra'',
       message = message_A, timestamp = ''2023-11-14T22:13:20'' \<rparr>"

definition data_B :: chat_data where
  "data_B = \<lparr> history = [], api_state = valid_state, grade = ''7'', topic = ''algebra'',
       message = message_B, timestamp = ''2023-11-14T22:13:21'' \<rparr>"

text \<open>The table after \<open>request_A\<close> was staged on an empty server.\<close>

definition staged_A :: table where
  "staged_A = CHAT_REQUESTS (snd (chat 1700000000 ''2023-11-14T22:13:20'' None request_A empty_server))"

text \<open>The closure and the table after that entry was dispatched once.\<close>

definition closure_A :: stream_closure where
  "closure_A = \<lparr> cl_request_id = ''1700000000'', cl_history = [PStr ''hi''],
                  cl_api_state = valid_state \<rparr>"

definition opened_A :: table where
  "opened_A = [req_key ''1700000000'' \<mapsto> data_A\<lparr> history := [PStr ''hi''] \<rparr>]"

text \<open>An entry whose history already ends with the text as the client typed it.\<close>

definition resent_A :: table where
  "resent_A = [req_key ''1700000000'' \<mapsto> data_A\<lparr> history := [PStr '' hi ''] \<rparr>]"

text \<open>
  An entry whose history ends with \<open>''hi''\<close> and whose message is that text between a
  no-break space (U+00A0) and an ideographic space (U+3000).
\<close>

definition message_U :: ChatMessage where
  "message_U = \<lparr> mtext = [CHR 0xC2, CHR 0xA0] @ ''hi'' @ [CHR 0xE3, CHR 0x80, CHR 0x80],
                  mtype = Some ''text'', image_data = None, state = None \<rparr>"

definition resent_U :: table where
  "resent_U = [req_key ''1700000000'' \<mapsto>
                 data_A\<lparr> history := [PStr ''hi''], message := message_U \<rparr>]"

definition memory_A :: pyval where
  "memory_A = PDict [(''topics'', PList []), (''user_questions'', PList [PStr ''hi'']),
                     (''misconceptions'', PList []), (''strengths'', PList []),
                     (''weaknesses'', PList [])]"

text \<open>A provider that answers in three chunks, and one whose call fails.\<close>

definition env_ok :: run_env where
  "env_ok = \<lparr> MATHEMATICS_SCIENTISTS = Map.empty, setup_failure = None,
      api_call = Inr \<lparr> chunks = [[Some ''Hel''], [None], [Some ''lo'']], failure = None \<rparr>,
      memory_update = Inr memory_A, clock = ''12:00:00'',
      key_error_text = quoted ''CHAT_REQ_1700000000'' \<rparr>"

definition env_fail :: run_env where
  "env_fail = \<lparr> MATHEMATICS_SCIENTISTS = Map.empty, setup_failure = None,
      api_call = Inl (OtherException ''[Errno 104] Connection reset by peer''),
      memory_update = Inr memory_A, clock = ''12:00:00'',
      key_error_text = quoted ''CHAT_REQ_1700000000'' \<rparr>"











section \<open>Properties\<close>

subsection \<open>Evaluating the samples\<close>

lemma str_int_sample: "str_int 1700000000 = ''1700000000''"
  by (simp add: str_int_def str_nat.simps digit_char_def)

lemma strip_sample: "strip '' hi '' = ''hi''"
  by (simp add: strip_def rstrip_def is_space1_def is_space2_def is_space3_def)

lemma strip_unicode_sample:
  "strip ([CHR 0xC2, CHR 0xA0] @ ''hi'' @ [CHR 0xE3, CHR 0x80, CHR 0x80]) = ''hi''"
  by (simp add: strip_def rstrip_def is_space1_def is_space2_def is_space3_def)

lemma chat_request_A:
  "chat 1700000000 ''2023-11-14T22:13:20'' None request_A empty_server =
     (SuccessResponse ''Data received successfully'' ''1700000000'',
      \<lparr> CHAT_REQUESTS = [req_key ''1700000000'' \<mapsto> data_A],
        timers = [\<lparr> delay = 300, timer_request_id = ''1700000000'' \<rparr>] \<rparr>)"
  by (simp add: chat_def Let_def request_A_def empty_server_def valid_state_def py_get_def
      MAX_HISTORY_def str_int_sample data_A_def)

lemma chat_request_B:
  "chat 1700000000 ''2023-11-14T22:13:21'' None request_B
       \<lparr> CHAT_REQUESTS = [req_key ''1700000000'' \<mapsto> data_A],
         timers = [\<lparr> delay = 300, timer_request_id = ''1700000000'' \<rparr>] \<rparr> =
     (SuccessResponse ''Data received successfully'' ''1700000000'',
      \<lparr> CHAT_REQUESTS = [req_key ''1700000000'' \<mapsto> data_B],
        timers = [\<lparr> delay = 300, timer_request_id = ''1700000000'' \<rparr>,
                  \<lparr> delay = 300, timer_request_id = ''1700000000'' \<rparr>] \<rparr>)"
  by (simp add: chat_def Let_def request_B_def valid_state_def py_get_def
      MAX_HISTORY_def str_int_sample data_B_def)

lemma staged_A_eq: "staged_A = [req_key ''1700000000'' \<mapsto> data_A]"
  by (simp add: staged_A_def chat_request_A)

lemma open_A: "chat_stream ''1700000000'' staged_A = (StreamingResponse closure_A, opened_A)"
  by (simp add: staged_A_eq chat_stream_def add_user_message_def user_message_def user_text_def
      data_A_def message_A_def strip_sample closure_A_def opened_A_def Let_def)

lemma reopen_A: "chat_stream ''1700000000'' opened_A = (StreamingResponse closure_A, opened_A)"
  by (simp add: chat_stream_def add_user_message_def user_message_def user_text_def
      data_A_def message_A_def strip_sample closure_A_def opened_A_def Let_def)

lemma run_ok:
  "generate_response env_ok closure_A opened_A =
     ([Thinking (thought_sign @ '' Analyzing and preparing response...''),
       Thinking (thought_sign @ '' Processing your question...''),
       Chunk ''Hel'', Chunk ''lo'', Done ''Hello'' memory_A (PStr ''none'')],
      Map.empty, None)"
  by (simp add: generate_response_def outer_try_def inner_try_def closure_A_def opened_A_def
      env_ok_def valid_state_def py_get_def first_thinking_def second_thinking_def last_item_def
      set_history_def set_api_state_def getitem_def finally_block_def delitem_def Let_def)

lemma run_fail:
  "generate_response env_fail closure_A opened_A =
     ([Thinking (thought_sign @ '' Analyzing and preparing response...''),
       Thinking (thought_sign @ '' Processing your question...''),
       Error (warn_sign @ '' API error: [Errno 104] Connection reset by peer'')],
      Map.empty, None)"
  by (simp add: generate_response_def outer_try_def inner_try_def inner_handler_def closure_A_def
      opened_A_def env_fail_def valid_state_def py_get_def first_thinking_def second_thinking_def
      last_item_def set_history_def set_api_state_def getitem_def finally_block_def delitem_def
      Let_def)

subsection \<open>The relay loop\<close>

lemma relay_nonterminal: "e \<in> set (fst (relay cs fl acc)) \<Longrightarrow> \<not> is_terminal e"
  by (induction cs fl acc rule: relay.induct) (auto split: prod.splits)

lemma relay_success:
  "relay cs fl acc = (evs, Inr full_response) \<Longrightarrow>
     evs = map Chunk (fragments cs) \<and> full_response = acc @ concat (fragments cs)"
  by (induction cs fl acc arbitrary: evs rule: relay.induct) (auto split: prod.splits)

lemma chunk_contents_append: "chunk_contents (xs @ ys) = chunk_contents xs @ chunk_contents ys"
  by (induction xs rule: chunk_contents.induct) auto

lemma chunk_contents_map: "chunk_contents (map Chunk xs) = xs"
  by (induction xs) auto

subsection \<open>The blocks of the generator\<close>

lemma finally_block_eq: "finally_block key tbl = Inr (tbl(key := None))"
  by (auto simp: finally_block_def delitem_def split: option.splits)

lemma set_history_outside: "set_history tbl k h = Inr t \<Longrightarrow> t(k := None) = tbl(k := None)"
  by (auto simp: set_history_def getitem_def split: option.splits)

lemma set_api_state_outside: "set_api_state tbl k st = Inr t \<Longrightarrow> t(k := None) = tbl(k := None)"
  by (auto simp: set_api_state_def getitem_def split: option.splits)

lemma ends_onceI:
  "\<forall>e \<in> set pre. \<not> is_terminal e \<Longrightarrow> is_terminal t \<Longrightarrow> ends_once (pre @ [t])"
  unfolding ends_once_def by blast

lemma set_history_present:
  "set_history tbl k h = Inr t \<Longrightarrow> k \<in> dom tbl \<and> k \<in> dom t"
  by (auto simp: set_history_def getitem_def split: option.splits)

lemma set_history_absent:
  "set_history tbl k h = Inl e \<Longrightarrow> k \<notin> dom tbl"
  by (auto simp: set_history_def getitem_def split: option.splits)

lemma set_api_state_present:
  "k \<in> dom tbl \<Longrightarrow> \<exists>t. set_api_state tbl k st = Inr t"
  by (auto simp: set_api_state_def getitem_def split: option.splits)

text \<open>
  The inner block either yields its chunks and leaves with an exception, the one of
  \<open>inner_source\<close> or else the KeyError of the write-back, or it yields them and then
  the one done event.
\<close>

lemma inner_try_cases:
  assumes "inner_try env c sk tbl = (evs, h, t, r)"
  obtains (raised) e where "r = Some e" and "\<forall>e \<in> set evs. \<not> is_terminal e"
      and "t = tbl" and "inner_source env e"
    | (missing) "r = Some (OtherException (key_error_text env))"
      and "\<forall>e \<in> set evs. \<not> is_terminal e" and "t = tbl"
      and "req_key (cl_request_id c) \<notin> dom tbl" and "\<forall>e. \<not> inner_source env e"
    | (finished) stream full_response mem where "r = None" and "api_call env = Inr stream"
      and "evs = map Chunk (fragments (chunks stream)) @ [Done full_response mem sk]"
      and "full_response = concat (fragments (chunks stream))"
      and "req_key (cl_request_id c) \<in> dom tbl" and "\<forall>e. \<not> inner_source env e"
proof (cases "api_call env")
  case (Inl e)
  with assms have "r = Some e" and "evs = []" and "t = tbl" by (auto simp: inner_try_def)
  moreover from Inl have "inner_source env e" by (simp add: inner_source_def)
  ultimately show ?thesis using raised by simp
next
  case (Inr stream)
  obtain evs0 res where rl: "relay (chunks stream) (failure stream) [] = (evs0, res)"
    by (cases "relay (chunks stream) (failure stream) []")
  have nt: "\<forall>e \<in> set evs0. \<not> is_terminal e"
    using relay_nonterminal[of _ "chunks stream" "failure stream" "[]"] rl by simp
  show ?thesis
  proof (cases res)
    case (Inl e)
    with assms Inr rl have "r = Some e" and "evs = evs0" and "t = tbl"
      by (auto simp: inner_try_def)
    moreover from Inr rl Inl have "inner_source env e" by (simp add: inner_source_def)
    ultimately show ?thesis using nt raised by simp
  next
    case full: (Inr full_response)
    from relay_success[OF rl[unfolded full]]
    have ev0: "evs0 = map Chunk (fragments (chunks stream))"
      and fr: "full_response = concat (fragments (chunks stream))" by simp_all
    show ?thesis
    proof (cases "memory_update env")
      case (Inl e)
      with assms Inr rl full have "r = Some e" and "evs = evs0" and "t = tbl"
        by (auto simp: inner_try_def Let_def)
      moreover from Inr rl full Inl have "inner_source env e" by (simp add: inner_source_def)
      ultimately show ?thesis using nt raised by simp
    next
      case mem: (Inr conversation_memory)
      from Inr rl full mem have nosrc: "\<forall>e. \<not> inner_source env e"
        by (simp add: inner_source_def)
      let ?key = "req_key (cl_request_id c)"
      let ?h = "cl_history c @ [PStr full_response]"
      show ?thesis
      proof (cases "set_history tbl ?key ?h")
        case (Inl ke)
        with assms Inr rl full mem
        have "r = Some (OtherException (key_error_text env))" and "evs = evs0" and "t = tbl"
          by (auto simp: inner_try_def Let_def caught_key_error_def)
        with nt nosrc set_history_absent[OF Inl] show ?thesis using missing by simp
      next
        case written: (Inr tbl1)
        from set_history_present[OF written] have p: "?key \<in> dom tbl" and p1: "?key \<in> dom tbl1"
          by simp_all
        from set_api_state_present[OF p1] obtain tbl2 where
          "set_api_state tbl1 ?key
             (dict_set (cl_api_state c) ''conversation_memory'' conversation_memory) = Inr tbl2"
          by blast
        with assms Inr rl full mem written
        have "r = None" and "evs = evs0 @ [Done full_response conversation_memory sk]"
          by (auto simp: inner_try_def Let_def)
        with ev0 fr Inr p nosrc show ?thesis using finished by simp
      qed
    qed
  qed
qed

lemma inner_try_table:
  assumes "inner_try env c sk tbl = (evs, h, t, r)"
  shows "t(req_key (cl_request_id c) := None) = tbl(req_key (cl_request_id c) := None)"
proof (cases "api_call env")
  case (Inl e)
  with assms show ?thesis by (auto simp: inner_try_def)
next
  case (Inr stream)
  obtain evs0 res where rl: "relay (chunks stream) (failure stream) [] = (evs0, res)"
    by (cases "relay (chunks stream) (failure stream) []")
  show ?thesis
  proof (cases res)
    case (Inl e)
    with assms Inr rl show ?thesis by (auto simp: inner_try_def)
  next
    case full: (Inr full_response)
    show ?thesis
      using assms Inr rl full
      by (auto simp: inner_try_def Let_def split: sum.splits
               dest!: set_history_outside set_api_state_outside)
  qed
qed

lemma inner_handler_cases:
  assumes "inner_handler env key e h tbl = (evs, t, r)"
  obtains (raised) "r = Some (OtherException (key_error_text env))" and "evs = []"
      and "t = tbl" and "key \<notin> dom tbl"
    | (reported) "r = None" and "evs = [Error (handle_api_error e)]"
      and "t(key := None) = tbl(key := None)" and "key \<in> dom tbl"
proof (cases "set_history tbl key (h @ [PStr (handle_api_error e)])")
  case (Inl ke)
  with assms set_history_absent[OF Inl] show ?thesis
    using raised by (auto simp: inner_handler_def Let_def caught_key_error_def)
next
  case (Inr tbl1)
  with assms set_history_present[OF Inr] set_history_outside[OF Inr] show ?thesis
    using reported by (auto simp: inner_handler_def Let_def)
qed

text \<open>
  The outer block leaves with an exception before any terminal event, or it ends
  with the image error, with the done event, or with the error event of the inner
  handler. Each exception is named by the place that raised it.
\<close>

lemma outer_try_cases:
  assumes "outer_try env c tbl = (evs, t, r)"
  obtains (raised) e where "r = Some e" and "\<forall>e \<in> set evs. \<not> is_terminal e"
      and "scientist_of (MATHEMATICS_SCIENTISTS env)
             (py_get (cl_api_state c) ''scientist_key'' (PStr ''none'')) = Inl e
           \<or> setup_failure env = Some e
           \<or> last_item (cl_history c) = Inl e
           \<or> (req_key (cl_request_id c) \<notin> dom tbl \<and> e = OtherException (key_error_text env))"
    | (image_error) m1 cur e where "r = None"
      and "evs = [Thinking m1, Error (warn_sign @ '' Error processing image: '' @ exn_str e)]"
      and "last_item (cl_history c) = Inr cur" and "is_image_turn cur"
      and "image_failure cur = Some e"
    | (finished) m1 m2 stream full_response mem sk where "r = None"
      and "api_call env = Inr stream"
      and "evs = [Thinking m1, Thinking m2] @ map Chunk (fragments (chunks stream))
                   @ [Done full_response mem sk]"
      and "full_response = concat (fragments (chunks stream))"
      and "\<forall>e. \<not> inner_source env e"
    | (reported) m1 m2 pre e where "r = None"
      and "evs = [Thinking m1, Thinking m2] @ pre @ [Error (handle_api_error e)]"
      and "\<forall>e \<in> set pre. \<not> is_terminal e"
      and "req_key (cl_request_id c) \<in> dom tbl" and "inner_source env e"
proof -
  let ?sk = "py_get (cl_api_state c) ''scientist_key'' (PStr ''none'')"
  let ?key = "req_key (cl_request_id c)"
  note leaves = that(1) and reports = that(4)
  show ?thesis
  proof (cases "scientist_of (MATHEMATICS_SCIENTISTS env) ?sk")
    case (Inl e)
    with assms have "r = Some e" and "evs = []" by (auto simp: outer_try_def)
    with Inl show ?thesis using raised by simp
  next
    case sci: (Inr scientist)
    show ?thesis
    proof (cases "setup_failure env")
      case (Some e)
      with assms sci have "r = Some e" and "evs = [Thinking (first_thinking scientist)]"
        by (auto simp: outer_try_def)
      with Some show ?thesis using raised by simp
    next
      case nofail: None
      show ?thesis
      proof (cases "last_item (cl_history c)")
        case (Inl e)
        with assms sci nofail have "r = Some e" and "evs = [Thinking (first_thinking scientist)]"
          by (auto simp: outer_try_def)
        with Inl show ?thesis using raised by simp
      next
        case cur: (Inr current_msg)
        show ?thesis
        proof (cases "if is_image_turn current_msg then image_failure current_msg else None")
          case (Some img_error)
          with assms sci nofail cur have "r = None"
            and "evs = [Thinking (first_thinking scientist),
                        Error (warn_sign @ '' Error processing image: '' @ exn_str img_error)]"
            by (auto simp: outer_try_def)
          moreover from Some have "is_image_turn current_msg"
            and "image_failure current_msg = Some img_error"
            by (auto split: if_splits)
          ultimately show ?thesis using image_error cur by simp
        next
          case noimg: None
          obtain evs1 h1 t1 r1 where it: "inner_try env c ?sk tbl = (evs1, h1, t1, r1)"
            by (metis prod_cases4)
          let ?m1 = "first_thinking scientist" and ?m2 = "second_thinking scientist"
          have handled: ?thesis
            if r1: "r1 = Some api_error" and nt: "\<forall>e \<in> set evs1. \<not> is_terminal e"
              and t1: "t1 = tbl"
              and src: "inner_source env api_error \<or> ?key \<notin> dom tbl" for api_error
          proof -
            obtain evs2 t2 r2 where ih:
              "inner_handler env ?key api_error h1 t1 = (evs2, t2, r2)"
              by (metis prod_cases3)
            have ev: "evs = [Thinking ?m1, Thinking ?m2] @ evs1 @ evs2" and r: "r = r2"
              using assms sci nofail cur noimg it r1 ih by (auto simp: outer_try_def)
            from ih show ?thesis
            proof (cases rule: inner_handler_cases)
              case raised
              with ev r nt t1 show ?thesis
                using leaves[of "OtherException (key_error_text env)"] by auto
            next
              case reported
              with ev r nt t1 src show ?thesis using reports[of ?m1 ?m2 evs1 api_error] by auto
            qed
          qed
          from it show ?thesis
          proof (cases rule: inner_try_cases)
            case (finished stream full_response mem)
            have "evs = [Thinking ?m1, Thinking ?m2] @ evs1" and "r = None"
              using assms sci nofail cur noimg it finished(1) by (auto simp: outer_try_def)
            with finished show ?thesis using that(3) by simp
          next
            case (raised api_error)
            then show ?thesis using handled by blast
          next
            case missing
            then show ?thesis using handled by blast
          qed
        qed
      qed
    qed
  qed
qed

lemma outer_try_table:
  assumes "outer_try env c tbl = (evs, t, r)"
  shows "t(req_key (cl_request_id c) := None) = tbl(req_key (cl_request_id c) := None)"
proof -
  let ?sk = "py_get (cl_api_state c) ''scientist_key'' (PStr ''none'')"
  let ?key = "req_key (cl_request_id c)"
  obtain evs1 h1 t1 r1 where it: "inner_try env c ?sk tbl = (evs1, h1, t1, r1)"
    by (metis prod_cases4)
  note t1 = inner_try_table[OF it]
  have "t = tbl \<or> t = t1 \<or> (\<exists>e evs2 r2. inner_handler env ?key e h1 t1 = (evs2, t, r2))"
    using assms it
    by (auto simp: outer_try_def Let_def split: sum.splits option.splits prod.splits if_splits)
  then consider "t = tbl" | "t = t1"
    | e evs2 r2 where "inner_handler env ?key e h1 t1 = (evs2, t, r2)" by blast
  then show ?thesis
  proof cases
    case 1
    then show ?thesis by simp
  next
    case 2
    with t1 show ?thesis by simp
  next
    case 3
    then have "t(?key := None) = t1(?key := None)"
      by (cases rule: inner_handler_cases) simp_all
    with t1 show ?thesis by simp
  qed
qed

lemma outer_handler_eq:
  "fst (outer_handler clk key e tbl) =
     [Error (format_error_message clk (warn_sign @ '' Unexpected error: '' @ exn_str e))]
   \<and> (snd (outer_handler clk key e tbl))(key := None) = tbl(key := None)"
  by (auto simp: outer_handler_def Let_def split: option.splits)

text \<open>The events and the table of a whole run, from those of the outer block.\<close>

lemma generate_response_eq:
  assumes "outer_try env c tbl = (evs, t, r)"
  shows "generate_response env c tbl =
           (evs @ (case r of
                     None \<Rightarrow> []
                   | Some e \<Rightarrow> [Error (format_error_message (clock env)
                                         (warn_sign @ '' Unexpected error: '' @ exn_str e))]),
            tbl(req_key (cl_request_id c) := None), None)"
proof (cases r)
  case None
  with assms outer_try_table[OF assms] show ?thesis
    by (simp add: generate_response_def finally_block_eq)
next
  case (Some e)
  obtain ev t2 where oh: "outer_handler (clock env) (req_key (cl_request_id c)) e t = (ev, t2)"
    by (cases "outer_handler (clock env) (req_key (cl_request_id c)) e t")
  with outer_handler_eq[of "clock env" "req_key (cl_request_id c)" e t]
  have "ev = [Error (format_error_message (clock env) (warn_sign @ '' Unexpected error: '' @ exn_str e))]"
    and "t2(req_key (cl_request_id c) := None) = t(req_key (cl_request_id c) := None)"
    by simp_all
  with assms Some oh outer_try_table[OF assms] show ?thesis
    by (simp add: generate_response_def finally_block_eq)
qed

lemma generate_response_table:
  "fst (snd (generate_response env c tbl)) = tbl(req_key (cl_request_id c) := None)"
proof -
  obtain evs t r where "outer_try env c tbl = (evs, t, r)" by (metis prod_cases3)
  from generate_response_eq[OF this] show ?thesis by simp
qed

section \<open>The claims\<close>

subsection \<open>C1: when the entry is consumed\<close>

text \<open>
  Claim C1, as the code has it. The Dispatcher reads the entry of a present key
  without removing it: \<open>chat_stream\<close> answers with a stream and the entry stays in the
  table under its key, with the history the closure holds, so a further dispatch
  attempt on that table is answered with a stream as well. The entry is removed when
  the generator has run to its end, whatever table it finds then; after that a
  dispatch attempt for the key reports "invalid or expired request" and changes
  nothing.
\<close>

theorem consumption_after_use:
  assumes "rid \<noteq> []" and "tbl (req_key rid) = Some data"
  shows "\<exists>c tbl1. chat_stream rid tbl = (StreamingResponse c, tbl1)
           \<and> cl_request_id c = rid
           \<and> tbl1 (req_key rid) = Some (data\<lparr> history := cl_history c \<rparr>)
           \<and> (\<exists>c'. fst (chat_stream rid tbl1) = StreamingResponse c')
           \<and> (\<forall>env tbl2. fst (snd (generate_response env c tbl2)) = tbl2(req_key rid := None))
           \<and> (\<forall>env tbl2. chat_stream rid (fst (snd (generate_response env c tbl2))) =
                  (JSONResponse invalid_request_message, tbl2(req_key rid := None)))"
  using assms by (simp add: chat_stream_def Let_def generate_response_table)

text \<open>
  The sample entry: it is still in the table after the first dispatch, and gone after
  the generator's run, when the next attempt is refused.
\<close>

theorem consumption_after_use_witness:
  "''1700000000'' \<noteq> [] \<and> staged_A (req_key ''1700000000'') = Some data_A
   \<and> chat_stream ''1700000000'' staged_A = (StreamingResponse closure_A, opened_A)
   \<and> opened_A (req_key ''1700000000'') = Some (data_A\<lparr> history := [PStr ''hi''] \<rparr>)
   \<and> fst (snd (generate_response env_ok closure_A opened_A)) (req_key ''1700000000'') = None
   \<and> fst (chat_stream ''1700000000'' (fst (snd (generate_response env_ok closure_A opened_A))))
       = JSONResponse invalid_request_message"
proof -
  have h1: "''1700000000'' \<noteq> []" by simp
  have h2: "staged_A (req_key ''1700000000'') = Some data_A" by (simp add: staged_A_eq)
  from consumption_after_use [of "''1700000000''" staged_A data_A, OF h1 h2] open_A
  have gone: "\<forall>env tbl2. fst (snd (generate_response env closure_A tbl2))
                 = tbl2(req_key ''1700000000'' := None)"
    and refused: "\<forall>env tbl2. chat_stream ''1700000000'' (fst (snd (generate_response env closure_A tbl2)))
                 = (JSONResponse invalid_request_message, tbl2(req_key ''1700000000'' := None))"
    by auto
  have kept: "opened_A (req_key ''1700000000'') = Some (data_A\<lparr> history := [PStr ''hi''] \<rparr>)"
    by (simp add: opened_A_def)
  have absent: "fst (snd (generate_response env_ok closure_A opened_A)) (req_key ''1700000000'') = None"
    using gone by simp
  have again: "fst (chat_stream ''1700000000'' (fst (snd (generate_response env_ok closure_A opened_A))))
                 = JSONResponse invalid_request_message"
    using refused by simp
  show ?thesis using h2 open_A kept absent again by simp
qed

text \<open>
  Against C1 as stated: two dispatch attempts for the staged key, one after the other
  and before any generator has run, both get a stream over the staged payload, and the
  entry is in the table after both.
\<close>

theorem single_consumption_counterexample:
  "fst (chat_stream ''1700000000'' staged_A) = StreamingResponse closure_A
   \<and> fst (chat_stream ''1700000000'' (snd (chat_stream ''1700000000'' staged_A)))
       = StreamingResponse closure_A
   \<and> snd (chat_stream ''1700000000'' (snd (chat_stream ''1700000000'' staged_A)))
        (req_key ''1700000000'') = Some (data_A\<lparr> history := [PStr ''hi''] \<rparr>)"
  by (simp add: open_A reopen_A) (simp add: opened_A_def)

subsection \<open>C2: the history limit\<close>

text \<open>
  Claim C2, as the code has it. A submission whose history has
  \<open>MAX_HISTORY * 2 = 40\<close> elements or more is answered with a structured error, inserts
  nothing into the table and starts no timer; the error is "history limit reached" when
  the configuration is usable. The configuration is checked first, so with an unusable
  one the error is the configuration error.
\<close>

theorem history_limit_enforcement:
  assumes "MAX_HISTORY * 2 \<le> length (req_history r)"
  shows "snd (chat now stamp fl r s) = s
       \<and> (\<exists>m. fst (chat now stamp fl r s) = ErrorResponse m)
       \<and> (req_api_state r \<noteq> [] \<and> truthy (py_get (req_api_state r) ''is_valid'' (PBool False))
            \<longrightarrow> fst (chat now stamp fl r s) = ErrorResponse limit_message)"
  using assms by (auto simp: chat_def Let_def)

theorem history_limit_enforcement_witness:
  "MAX_HISTORY * 2 \<le> length (req_history request_long)
   \<and> req_api_state request_long \<noteq> []
   \<and> truthy (py_get (req_api_state request_long) ''is_valid'' (PBool False))
   \<and> chat 1700000000 ''2023-11-14T22:13:20'' None request_long empty_server
       = (ErrorResponse limit_message, empty_server)"
  using history_limit_enforcement [where r = request_long and now = 1700000000
      and stamp = "''2023-11-14T22:13:20''" and fl = None and s = empty_server]
  by (simp add: request_long_def MAX_HISTORY_def valid_state_def py_get_def prod_eq_iff)

text \<open>
  Against C2 as stated: forty turns and an empty configuration; the answer is the
  configuration error, which is not the history-limit error.
\<close>

theorem history_limit_counterexample:
  "MAX_HISTORY * 2 \<le> length (req_history request_long_unusable)
   \<and> fst (chat 1700000000 ''2023-11-14T22:13:20'' None request_long_unusable empty_server)
       = ErrorResponse restart_message
   \<and> restart_message \<noteq> limit_message"
  by (simp add: chat_def Let_def request_long_unusable_def MAX_HISTORY_def restart_message_def
      limit_message_def)

subsection \<open>C3: chunk order and reconstruction\<close>

text \<open>
  Claim C3. In every run of the generator that emits a done event, the provider's call
  returned a stream, the contents of the chunk events in the order emitted are exactly
  the text fragments of that stream in the order of arrival, one event for each
  fragment, and their concatenation is the content of the done event.
\<close>

theorem chunk_ordering_and_reconstruction:
  assumes "Done content mem k \<in> set (fst (generate_response env c tbl))"
  shows "\<exists>stream. api_call env = Inr stream
           \<and> chunk_contents (fst (generate_response env c tbl)) = fragments (chunks stream)
           \<and> concat (chunk_contents (fst (generate_response env c tbl))) = content"
proof -
  obtain evs t r where ot: "outer_try env c tbl = (evs, t, r)"
    by (metis prod_cases3)
  note g = generate_response_eq [OF ot]
  from ot show ?thesis
  proof (cases rule: outer_try_cases)
    case (raised e)
    with g assms show ?thesis by auto
  next
    case (image_error m1 cur e)
    with g assms show ?thesis by auto
  next
    case (finished m1 m2 stream full_response mem' sk)
    with g have ev: "fst (generate_response env c tbl) =
        [Thinking m1, Thinking m2] @ map Chunk (fragments (chunks stream))
          @ [Done full_response mem' sk]"
      by simp
    with assms have "content = full_response" by auto
    with ev finished(2,4) show ?thesis
      by (simp add: chunk_contents_append chunk_contents_map)
  next
    case (reported m1 m2 pre e)
    with g assms show ?thesis by auto
  qed
qed

theorem chunk_ordering_and_reconstruction_witness:
  "Done ''Hello'' memory_A (PStr ''none'') \<in> set (fst (generate_response env_ok closure_A opened_A))
   \<and> api_call env_ok = Inr \<lparr> chunks = [[Some ''Hel''], [None], [Some ''lo'']], failure = None \<rparr>
   \<and> chunk_contents (fst (generate_response env_ok closure_A opened_A)) = [''Hel'', ''lo'']
   \<and> concat (chunk_contents (fst (generate_response env_ok closure_A opened_A))) = ''Hello''"
proof -
  have h: "Done ''Hello'' memory_A (PStr ''none'')
             \<in> set (fst (generate_response env_ok closure_A opened_A))"
    by (simp add: run_ok)
  from chunk_ordering_and_reconstruction [OF h]
  have "chunk_contents (fst (generate_response env_ok closure_A opened_A))
          = fragments [[Some ''Hel''], [None], [Some ''lo'']]"
    and "concat (chunk_contents (fst (generate_response env_ok closure_A opened_A))) = ''Hello''"
    by (auto simp: env_ok_def)
  with h show ?thesis by (simp add: env_ok_def)
qed

subsection \<open>C4: one terminal event\<close>

text \<open>
  Claim C4. Every run of the generator ends with a terminal event, a done event or an
  error event, no event before it is terminal, and no exception escapes the generator;
  so a stream has exactly one terminal event, and nothing follows it.
\<close>

theorem one_terminal_event:
  "\<exists>pre t. fst (generate_response env c tbl) = pre @ [t]
       \<and> is_terminal t
       \<and> (\<forall>e \<in> set pre. \<not> is_terminal e)
       \<and> snd (snd (generate_response env c tbl)) = None"
proof -
  obtain evs t r where ot: "outer_try env c tbl = (evs, t, r)"
    by (metis prod_cases3)
  note g = generate_response_eq [OF ot]
  have "ends_once (fst (generate_response env c tbl))"
    using ot
  proof (cases rule: outer_try_cases)
    case (raised e)
    with g have "fst (generate_response env c tbl) =
        evs @ [Error (format_error_message (clock env)
                       (warn_sign @ '' Unexpected error: '' @ exn_str e))]"
      by simp
    with raised(2) show ?thesis by (simp add: ends_onceI)
  next
    case (image_error m1 cur e)
    with g have "fst (generate_response env c tbl) =
        [Thinking m1] @ [Error (warn_sign @ '' Error processing image: '' @ exn_str e)]"
      by simp
    then show ?thesis by (simp add: ends_onceI del: append.simps)
  next
    case (finished m1 m2 stream full_response mem sk)
    with g have "fst (generate_response env c tbl) =
        ([Thinking m1, Thinking m2] @ map Chunk (fragments (chunks stream)))
          @ [Done full_response mem sk]"
      by simp
    moreover have "\<forall>e \<in> set ([Thinking m1, Thinking m2] @ map Chunk (fragments (chunks stream))).
        \<not> is_terminal e"
      by auto
    ultimately show ?thesis by (simp only: ends_onceI is_terminal.simps)
  next
    case (reported m1 m2 pre e)
    with g have "fst (generate_response env c tbl) =
        ([Thinking m1, Thinking m2] @ pre) @ [Error (handle_api_error e)]"
      by simp
    moreover have "\<forall>x \<in> set ([Thinking m1, Thinking m2] @ pre). \<not> is_terminal x"
      using reported(3) by auto
    ultimately show ?thesis by (simp only: ends_onceI is_terminal.simps)
  qed
  with g show ?thesis unfolding ends_once_def by auto
qed

theorem one_terminal_event_witness:
  "fst (generate_response env_fail closure_A opened_A) =
     [Thinking (thought_sign @ '' Analyzing and preparing response...''),
      Thinking (thought_sign @ '' Processing your question...'')]
     @ [Error (warn_sign @ '' API error: [Errno 104] Connection reset by peer'')]
   \<and> is_terminal (Error (warn_sign @ '' API error: [Errno 104] Connection reset by peer''))
   \<and> \<not> is_terminal (Thinking (thought_sign @ '' Analyzing and preparing response...''))
   \<and> \<not> is_terminal (Thinking (thought_sign @ '' Processing your question...''))
   \<and> snd (snd (generate_response env_fail closure_A opened_A)) = None"
  using one_terminal_event [of env_fail closure_A opened_A]
  by (simp add: run_fail)

subsection \<open>C5: dispatch of an unknown key\<close>

text \<open>
  Claim C5. For a correlation key with no entry in the pending table, the Dispatcher
  returns the error response "invalid or expired request", opens no stream and leaves
  the table as it was.
\<close>

theorem unknown_key_dispatch:
  assumes "req_key rid \<notin> dom tbl"
  shows "chat_stream rid tbl = (JSONResponse invalid_request_message, tbl)"
  using assms by (auto simp: chat_stream_def split: option.splits)

theorem unknown_key_dispatch_witness:
  "req_key ''1700000001'' \<notin> dom staged_A
   \<and> chat_stream ''1700000001'' staged_A = (JSONResponse invalid_request_message, staged_A)"
proof -
  have h: "req_key ''1700000001'' \<notin> dom staged_A"
    by (simp add: staged_A_eq req_key_def)
  from unknown_key_dispatch [OF h] h show ?thesis by simp
qed

subsection \<open>C6: the eviction action\<close>





subsection \<open>C7: staging with an unusable configuration\<close>

text \<open>
  Claim C7. For a submission whose configuration is empty or whose \<^verbatim>\<open>is_valid\<close> flag is
  missing or false, staging returns the structured configuration error, and the state
  is the one before the call: nothing inserted, no timer started.
\<close>

theorem invalid_configuration_staging:
  assumes "req_api_state r = [] \<or> \<not> truthy (py_get (req_api_state r) ''is_valid'' (PBool False))"
  shows "chat now stamp fl r s = (ErrorResponse restart_message, s)"
  using assms by (auto simp: chat_def Let_def)

theorem invalid_configuration_staging_witness:
  "\<not> truthy (py_get (req_api_state request_unusable) ''is_valid'' (PBool False))
   \<and> chat 1700000000 ''2023-11-14T22:13:20'' None request_unusable
        \<lparr> CHAT_REQUESTS = staged_A, timers = [] \<rparr>
       = (ErrorResponse restart_message, \<lparr> CHAT_REQUESTS = staged_A, timers = [] \<rparr>)"
proof -
  have h: "\<not> truthy (py_get (req_api_state request_unusable) ''is_valid'' (PBool False))"
    by (simp add: request_unusable_def py_get_def)
  then have "req_api_state request_unusable = []
      \<or> \<not> truthy (py_get (req_api_state request_unusable) ''is_valid'' (PBool False))" ..
  from invalid_configuration_staging [OF this] h show ?thesis by simp
qed

subsection \<open>C8: what a failure shows to the client\<close>






subsection \<open>C9: correlation keys\<close>

text \<open>
  Claim C9, as the code has it. The table holds at most one entry for a key, being a
  map. A successful staging stores its entry under the key the client supplied, or
  under the Unix time in whole seconds when the client supplied none or an empty one,
  whether or not that key is in the table: an entry already there is replaced. The
  entries under all other keys stay as they are. Nothing keeps a key from being used
  again.
\<close>

theorem staging_replaces:
  assumes "chat now stamp fl r s = (SuccessResponse m rid, s')"
  shows "rid = (case request_id r of
                  None \<Rightarrow> str_int now
                | Some x \<Rightarrow> if x = [] then str_int now else x)
       \<and> CHAT_REQUESTS s' (req_key rid) =
           Some \<lparr> history = req_history r, api_state = req_api_state r, grade = req_grade r,
                  topic = req_topic r, message = req_message r, timestamp = stamp \<rparr>
       \<and> (\<forall>k. k \<noteq> req_key rid \<longrightarrow> CHAT_REQUESTS s' k = CHAT_REQUESTS s k)"
  using assms by (auto simp: chat_def Let_def split: if_splits option.splits)

text \<open>The second of two submissions staged in the same second, on top of the first.\<close>

theorem staging_replaces_witness:
  "chat 1700000000 ''2023-11-14T22:13:21'' None request_B
       \<lparr> CHAT_REQUESTS = [req_key ''1700000000'' \<mapsto> data_A],
         timers = [\<lparr> delay = 300, timer_request_id = ''1700000000'' \<rparr>] \<rparr> =
     (SuccessResponse ''Data received successfully'' ''1700000000'',
      \<lparr> CHAT_REQUESTS = [req_key ''1700000000'' \<mapsto> data_B],
        timers = [\<lparr> delay = 300, timer_request_id = ''1700000000'' \<rparr>,
                  \<lparr> delay = 300, timer_request_id = ''1700000000'' \<rparr>] \<rparr>)
   \<and> ''1700000000'' = str_int 1700000000
   \<and> [req_key ''1700000000'' \<mapsto> data_B] (req_key ''1700000000'') =
       Some \<lparr> history = req_history request_B, api_state = req_api_state request_B,
              grade = req_grade request_B, topic = req_topic request_B,
              message = req_message request_B, timestamp = ''2023-11-14T22:13:21'' \<rparr>"
proof -
  from staging_replaces [OF chat_request_B]
  have "''1700000000'' = (case request_id request_B of
                  None \<Rightarrow> str_int 1700000000
                | Some x \<Rightarrow> if x = [] then str_int 1700000000 else x)"
    and "[req_key ''1700000000'' \<mapsto> data_B] (req_key ''1700000000'') =
       Some \<lparr> history = req_history request_B, api_state = req_api_state request_B,
              grade = req_grade request_B, topic = req_topic request_B,
              message = req_message request_B, timestamp = ''2023-11-14T22:13:21'' \<rparr>"
    by simp_all
  moreover have "request_id request_B = None" by (simp add: request_B_def)
  ultimately show ?thesis using chat_request_B by simp
qed

text \<open>
  Against C9 as stated: two submissions without a client key arrive in the same second.
  Both are accepted under the key of that second, and the entry of the first is
  replaced by the entry of the second, which differs from it.
\<close>

theorem key_uniqueness_counterexample:
  "fst (chat 1700000000 ''2023-11-14T22:13:20'' None request_A empty_server)
     = SuccessResponse ''Data received successfully'' ''1700000000''
   \<and> CHAT_REQUESTS (snd (chat 1700000000 ''2023-11-14T22:13:20'' None request_A empty_server))
        (req_key ''1700000000'') = Some data_A
   \<and> fst (chat 1700000000 ''2023-11-14T22:13:21'' None request_B
            (snd (chat 1700000000 ''2023-11-14T22:13:20'' None request_A empty_server)))
     = SuccessResponse ''Data received successfully'' ''1700000000''
   \<and> CHAT_REQUESTS (snd (chat 1700000000 ''2023-11-14T22:13:21'' None request_B
            (snd (chat 1700000000 ''2023-11-14T22:13:20'' None request_A empty_server))))
        (req_key ''1700000000'') = Some data_B
   \<and> data_A \<noteq> data_B"
  by (simp add: chat_request_A chat_request_B) (simp add: data_A_def data_B_def)

subsection \<open>C10: the user's turn at dispatch\<close>

text \<open>
  Claim C10, as the code has it. When a stream is opened for a present entry, the
  history of the closure is the staged history with the new user turn appended (the
  text stripped of the whitespace around it as \<^verbatim>\<open>str.strip\<close> does, or the image turn
  when image data came with it), except when the staged history ends with an image
  turn or with a string equal to the stripped text, where it is the staged history
  itself. So the history passed
  on is never empty and ends with an image turn or with the stripped text, and
  applying the step again to its own result appends nothing.
\<close>

theorem dispatch_append_dedup:
  assumes "rid \<noteq> []" and "tbl (req_key rid) = Some data"
  shows "\<exists>tbl1. chat_stream rid tbl =
             (StreamingResponse \<lparr> cl_request_id = rid,
                                  cl_history = add_user_message (history data) (message data),
                                  cl_api_state = api_state data \<rparr>, tbl1)
       \<and> add_user_message (history data) (message data) =
           (if history data \<noteq> []
               \<and> (is_image_turn (last (history data))
                    \<or> last (history data) = PStr (strip (mtext (message data))))
            then history data
            else history data @ [user_message (message data)])
       \<and> add_user_message (history data) (message data) \<noteq> []
       \<and> (is_image_turn (last (add_user_message (history data) (message data)))
            \<or> last (add_user_message (history data) (message data))
                 = PStr (strip (mtext (message data))))
       \<and> add_user_message (add_user_message (history data) (message data)) (message data)
           = add_user_message (history data) (message data)"
proof -
  let ?h = "history data" and ?m = "message data"
  have turn: "is_image_turn (user_message ?m) \<or> user_message ?m = PStr (strip (mtext ?m))"
    by (auto simp: user_message_def user_text_def split: option.splits)
  have opened: "\<exists>tbl1. chat_stream rid tbl =
             (StreamingResponse \<lparr> cl_request_id = rid, cl_history = add_user_message ?h ?m,
                                  cl_api_state = api_state data \<rparr>, tbl1)"
    using assms by (simp add: chat_stream_def Let_def)
  have step: "add_user_message ?h ?m =
           (if ?h \<noteq> [] \<and> (is_image_turn (last ?h) \<or> last ?h = PStr (strip (mtext ?m)))
            then ?h else ?h @ [user_message ?m])"
    by (auto simp: add_user_message_def user_text_def)
  have nonempty: "add_user_message ?h ?m \<noteq> []"
    unfolding step by simp
  have ends: "is_image_turn (last (add_user_message ?h ?m))
            \<or> last (add_user_message ?h ?m) = PStr (strip (mtext ?m))"
    unfolding step using turn by auto
  have fixed: "add_user_message h' ?m = h'"
    if "h' \<noteq> []" and "is_image_turn (last h') \<or> last h' = PStr (strip (mtext ?m))" for h'
    using that by (auto simp: add_user_message_def user_text_def)
  have again: "add_user_message (add_user_message ?h ?m) ?m = add_user_message ?h ?m"
    using nonempty ends by (rule fixed)
  from opened step nonempty ends again show ?thesis by blast
qed

text \<open>
  The sample entry: the first dispatch appends the stripped text to the empty history,
  and a dispatch of the entry it leaves appends nothing. Nothing is appended either to
  a history that ends with \<open>''hi''\<close> when the text is \<open>''hi''\<close> between a no-break space
  and an ideographic space.
\<close>

theorem dispatch_append_dedup_witness:
  "''1700000000'' \<noteq> [] \<and> staged_A (req_key ''1700000000'') = Some data_A
   \<and> add_user_message (history data_A) (message data_A) = [PStr ''hi'']
   \<and> last [PStr ''hi''] = PStr (strip (mtext (message data_A)))
   \<and> add_user_message [PStr ''hi''] (message data_A) = [PStr ''hi'']
   \<and> chat_stream ''1700000000'' opened_A = (StreamingResponse closure_A, opened_A)
   \<and> resent_U (req_key ''1700000000'')
       = Some (data_A\<lparr> history := [PStr ''hi''], message := message_U \<rparr>)
   \<and> fst (chat_stream ''1700000000'' resent_U) = StreamingResponse closure_A"
proof -
  have u1: "resent_U (req_key ''1700000000'')
       = Some (data_A\<lparr> history := [PStr ''hi''], message := message_U \<rparr>)"
    by (simp add: resent_U_def)
  have strip_U: "strip (mtext message_U) = ''hi''"
    using strip_unicode_sample by (simp add: message_U_def)
  from dispatch_append_dedup [of "''1700000000''" resent_U
      "data_A\<lparr> history := [PStr ''hi''], message := message_U \<rparr>"] u1
  obtain tbl1 where "chat_stream ''1700000000'' resent_U =
      (StreamingResponse \<lparr> cl_request_id = ''1700000000'',
          cl_history = add_user_message [PStr ''hi''] message_U,
          cl_api_state = api_state data_A \<rparr>, tbl1)"
    and "add_user_message [PStr ''hi''] message_U =
           (if is_image_turn (PStr ''hi'') \<or> PStr ''hi'' = PStr (strip (mtext message_U))
            then [PStr ''hi''] else [PStr ''hi''] @ [user_message message_U])"
    by auto
  with strip_U have u2: "fst (chat_stream ''1700000000'' resent_U) = StreamingResponse closure_A"
    by (simp add: closure_A_def data_A_def)
  have h1: "''1700000000'' \<noteq> []" by simp
  have h2: "staged_A (req_key ''1700000000'') = Some data_A" by (simp add: staged_A_eq)
  have first: "add_user_message (history data_A) (message data_A) = [PStr ''hi'']"
    by (simp add: add_user_message_def user_message_def user_text_def data_A_def message_A_def
        strip_sample)
  from dispatch_append_dedup [of "''1700000000''" staged_A data_A, OF h1 h2]
  have "add_user_message (add_user_message (history data_A) (message data_A)) (message data_A)
          = add_user_message (history data_A) (message data_A)"
    and "is_image_turn (last (add_user_message (history data_A) (message data_A)))
          \<or> last (add_user_message (history data_A) (message data_A))
               = PStr (strip (mtext (message data_A)))"
    by blast+
  with first have again: "add_user_message [PStr ''hi''] (message data_A) = [PStr ''hi'']"
    and ends: "last [PStr ''hi''] = PStr (strip (mtext (message data_A)))"
    by simp_all
  from h1 h2 first again ends reopen_A u1 u2 show ?thesis by blast
qed

text \<open>
  Against C10 as stated: the staged history ends with the string \<open>'' hi ''\<close>, which is
  the text of the new message as it was sent; the comparison is made with the stripped
  text, so \<open>''hi''\<close> is appended.
\<close>

theorem dispatch_dedup_counterexample:
  "resent_A (req_key ''1700000000'') = Some (data_A\<lparr> history := [PStr '' hi ''] \<rparr>)
   \<and> last (history (data_A\<lparr> history := [PStr '' hi ''] \<rparr>))
       = PStr (mtext (message (data_A\<lparr> history := [PStr '' hi ''] \<rparr>)))
   \<and> fst (chat_stream ''1700000000'' resent_A) =
       StreamingResponse \<lparr> cl_request_id = ''1700000000'',
                            cl_history = [PStr '' hi '', PStr ''hi''],
                            cl_api_state = valid_state \<rparr>"
  by (simp add: resent_A_def chat_stream_def Let_def add_user_message_def user_message_def
      user_text_def data_A_def message_A_def strip_sample)

end
